theory Spec2Isabelle
  imports Complex_Main
begin

section \<open>Entities of the Galcon tick engine (cq_galcon/game/entity.py)\<close>

text \<open>
  Modelled from the spec: the \<open>Team\<close> enumeration lives in
  \<open>cq_galcon/game/constants.py\<close>, which is not among the sources. The spec calls it
  a small closed enumeration with a neutral sentinel; the engine only ever compares a
  team with \<open>Team.NEUTREAL\<close> or with another team.
\<close>

datatype Team = NEUTREAL | PLAYER nat

text \<open>
  \<open>Position\<close> is a named tuple of two floats. Coordinates are taken as real
  numbers here: every statement below that is evaluated at a concrete input uses
  coordinates on which the floating-point operations of the source are exact.
\<close>

datatype Position = Position (pos_x: real) (pos_y: real)

definition distance_to :: "Position \<Rightarrow> Position \<Rightarrow> real" where
  "distance_to a b = sqrt ((pos_x a - pos_x b)\<^sup>2 + (pos_y a - pos_y b)\<^sup>2)"

text \<open>
  Fleets and planets are mutable objects that refer to each other
  (\<open>Planet.defending_fleet\<close>, \<open>Fleet.destination\<close>), and the engine compares them by
  identity. An object is therefore a natural number (its identity) and the fields live
  in a store. \<open>destination\<close> is \<open>Optional[Planet]\<close>: \<open>None\<close> or the identity of a planet.
\<close>

record Entity =
  position :: Position

record Fleet = Entity +
  team :: Team
  strength :: int
  destination :: "nat option"

record Planet = Entity +
  production_speed :: int
  remaining_until_new_ship :: int
  defending_fleet :: nat

record MoveCommand =
  cmd_fleet :: nat
  cmd_destination :: nat
  cmd_split :: bool

text \<open>An element of \<open>Game.state\<close>: \<open>isinstance\<close> tells a fleet from a planet.\<close>

datatype Ref = FleetRef nat | PlanetRef nat

text \<open>
  The game: the store of fleet and planet objects, the identity the next constructed
  \<open>Fleet\<close> receives, and the list \<open>Game.state\<close>.
\<close>

record Game =
  fleets :: "nat \<Rightarrow> Fleet"
  planets :: "nat \<Rightarrow> Planet"
  heap_next :: nat
  state :: "Ref list"

datatype error = AttributeError | ValueError | ZeroDivisionError

definition upd_fleet :: "nat \<Rightarrow> (Fleet \<Rightarrow> Fleet) \<Rightarrow> Game \<Rightarrow> Game" where
  "upd_fleet f h g = g\<lparr>fleets := (fleets g)(f := h (fleets g f))\<rparr>"

definition upd_planet :: "nat \<Rightarrow> (Planet \<Rightarrow> Planet) \<Rightarrow> Game \<Rightarrow> Game" where
  "upd_planet p h g = g\<lparr>planets := (planets g)(p := h (planets g p))\<rparr>"

text \<open>\<open>Planet.team\<close> and \<open>Planet.size\<close> are derived properties.\<close>

definition Planet_team :: "Game \<Rightarrow> nat \<Rightarrow> Team" where
  "Planet_team g p = team (fleets g (defending_fleet (planets g p)))"

definition Planet_size :: "Planet \<Rightarrow> int" where
  "Planet_size pl = production_speed pl + 4"

text \<open>
  \<open>Fleet.can_dock\<close>. \<open>MAX_FLEET_SPEED\<close> (here \<open>S\<close>) and \<open>MAX_ATTACK_SPEED\<close> (here \<open>M\<close>) are
  constants of the missing \<open>constants.py\<close> and are parameters of every function that
  reads them.
\<close>

definition can_dock :: "real \<Rightarrow> Fleet \<Rightarrow> Planet \<Rightarrow> bool" where
  "can_dock S fl pl \<longleftrightarrow>
     distance_to (position fl) (position pl) < real_of_int (Planet_size pl) + S"

section \<open>The tick engine (cq_galcon/game/game.py)\<close>

fun fleet_refs :: "Ref list \<Rightarrow> nat list" where
  "fleet_refs [] = []"
| "fleet_refs (FleetRef f # rs) = f # fleet_refs rs"
| "fleet_refs (PlanetRef p # rs) = fleet_refs rs"

fun planet_refs :: "Ref list \<Rightarrow> nat list" where
  "planet_refs [] = []"
| "planet_refs (FleetRef f # rs) = planet_refs rs"
| "planet_refs (PlanetRef p # rs) = p # planet_refs rs"

definition all_fleets :: "Game \<Rightarrow> nat list" where
  "all_fleets g = fleet_refs (state g)"

definition all_player_fleets :: "Game \<Rightarrow> nat list" where
  "all_player_fleets g = filter (\<lambda>f. team (fleets g f) \<noteq> NEUTREAL) (fleet_refs (state g))"

definition all_player_planets :: "Game \<Rightarrow> nat list" where
  "all_player_planets g = filter (\<lambda>p. Planet_team g p \<noteq> NEUTREAL) (planet_refs (state g))"

subsection \<open>Phase 1: commands\<close>

fun handle_commands :: "MoveCommand list \<Rightarrow> Game \<Rightarrow> Game" where
  "handle_commands [] g = g"
| "handle_commands (c # cs) g =
     handle_commands cs
       (upd_fleet (cmd_fleet c) (\<lambda>fl. fl\<lparr>destination := Some (cmd_destination c)\<rparr>) g)"

subsection \<open>Phase 2: fleets that already defend their destination\<close>

text \<open>
  \<open>fleet.destination.defending_fleet\<close> is evaluated for every active fleet, with no test
  of \<open>fleet.destination\<close> first: on \<open>None\<close> the attribute access raises
  \<open>AttributeError\<close> and the loop ends there.
\<close>

fun already_defending_loop :: "nat list \<Rightarrow> Game \<Rightarrow> error + Game" where
  "already_defending_loop [] g = Inr g"
| "already_defending_loop (f # fs) g =
     (case destination (fleets g f) of
        None \<Rightarrow> Inl AttributeError
      | Some p \<Rightarrow>
          if defending_fleet (planets g p) = f
          then already_defending_loop fs (upd_fleet f (\<lambda>fl. fl\<lparr>destination := None\<rparr>) g)
          else already_defending_loop fs g)"

definition handle_already_defending_fleets :: "Game \<Rightarrow> error + Game" where
  "handle_already_defending_fleets g = already_defending_loop (all_player_fleets g) g"

subsection \<open>Phase 3: departures\<close>

text \<open>
  \<open>_handle_departure\<close>: the new \<open>Fleet\<close> object takes the next free identity. With
  \<open>split\<close> the strength is \<open>math.ceil(strength / 2)\<close>; the quotient is a float, exact
  for strengths of magnitude up to \<open>2 ^ 53\<close>.
\<close>

definition handle_departure :: "nat \<Rightarrow> nat \<Rightarrow> bool \<Rightarrow> Game \<Rightarrow> Game \<times> nat" where
  "handle_departure origin dest split g =
     (let strenght_of_new_fleet =
            (if split
             then \<lceil>real_of_int (strength (fleets g (defending_fleet (planets g origin)))) / 2\<rceil>
             else strength (fleets g (defending_fleet (planets g origin))));
          new_fleet = heap_next g;
          g1 = g\<lparr>fleets := (fleets g)(new_fleet :=
                   \<lparr>position = position (planets g origin),
                    team = Planet_team g origin,
                    strength = strenght_of_new_fleet,
                    destination = Some dest\<rparr>),
                 heap_next := Suc (heap_next g)\<rparr>;
          g2 = upd_fleet (defending_fleet (planets g1 origin))
                 (\<lambda>fl. fl\<lparr>strength := strength fl - strength (fleets g1 new_fleet)\<rparr>) g1
      in (g2, new_fleet))"

fun departures_loop :: "nat list \<Rightarrow> Game \<Rightarrow> nat list \<Rightarrow> Game \<times> nat list" where
  "departures_loop [] g created_fleets = (g, created_fleets)"
| "departures_loop (p # ps) g created_fleets =
     (case destination (fleets g (defending_fleet (planets g p))) of
        None \<Rightarrow> departures_loop ps g created_fleets
      | Some d \<Rightarrow>
          if d = p then departures_loop ps g created_fleets
          else (case handle_departure p d False g of
                  (g', new_fleet) \<Rightarrow> departures_loop ps g' (created_fleets @ [new_fleet])))"

definition handle_departures :: "Game \<Rightarrow> Game \<times> nat list" where
  "handle_departures g = departures_loop (all_player_planets g) g []"

subsection \<open>Phase 4: movement\<close>

text \<open>
  \<open>_move_fleet\<close>. \<open>toward.normalize()\<close> of \<open>vectormath\<close> scales the vector to length 1
  and raises \<open>ZeroDivisionError\<close> on a vector of length 0. The new position is the
  scaled direction vector itself.
\<close>

definition move_fleet :: "real \<Rightarrow> nat \<Rightarrow> Game \<Rightarrow> error + Game" where
  "move_fleet S f g =
     (case destination (fleets g f) of
        None \<Rightarrow> Inl ValueError
      | Some d \<Rightarrow>
          (let toward_x = pos_x (position (planets g d)) - pos_x (position (fleets g f));
               toward_y = pos_y (position (planets g d)) - pos_y (position (fleets g f));
               toward_length = sqrt (toward_x\<^sup>2 + toward_y\<^sup>2);
               max_speed = min (toward_length - real_of_int (Planet_size (planets g d))) S
           in if toward_length = 0 then Inl ZeroDivisionError
              else Inr (upd_fleet f
                     (\<lambda>fl. fl\<lparr>position :=
                        Position (toward_x * (1 / toward_length) * max_speed)
                                 (toward_y * (1 / toward_length) * max_speed)\<rparr>) g)))"

fun movement_loop :: "real \<Rightarrow> nat list \<Rightarrow> Game \<Rightarrow> nat list \<Rightarrow> error + Game \<times> nat list" where
  "movement_loop S [] g moved_fleets = Inr (g, moved_fleets)"
| "movement_loop S (f # fs) g moved_fleets =
     (case destination (fleets g f) of
        None \<Rightarrow> movement_loop S fs g moved_fleets
      | Some d \<Rightarrow>
          if can_dock S (fleets g f) (planets g d) then movement_loop S fs g moved_fleets
          else (case move_fleet S f g of
                  Inl e \<Rightarrow> Inl e
                | Inr g' \<Rightarrow> movement_loop S fs g' (moved_fleets @ [f])))"

definition handle_movement :: "real \<Rightarrow> Game \<Rightarrow> error + Game \<times> nat list" where
  "handle_movement S g = movement_loop S (all_player_fleets g) g []"

subsection \<open>Phase 5: reinforcement\<close>

definition reinforce_transfer :: "int \<Rightarrow> nat \<Rightarrow> nat \<Rightarrow> Game \<Rightarrow> Game" where
  "reinforce_transfer M f d g =
     (let reinforcement_value = min (strength (fleets g f)) M;
          g1 = upd_fleet (defending_fleet (planets g d))
                 (\<lambda>fl. fl\<lparr>strength := strength fl + reinforcement_value\<rparr>) g
      in upd_fleet f (\<lambda>fl. fl\<lparr>strength := strength fl - reinforcement_value\<rparr>) g1)"

fun reinforce_loop ::
  "int \<Rightarrow> real \<Rightarrow> nat list \<Rightarrow> Game \<Rightarrow> nat list \<Rightarrow> nat list \<Rightarrow> Game \<times> nat list \<times> nat list" where
  "reinforce_loop M S [] g merging_fleets merged_fleets = (g, merging_fleets, merged_fleets)"
| "reinforce_loop M S (f # fs) g merging_fleets merged_fleets =
     (case destination (fleets g f) of
        None \<Rightarrow> reinforce_loop M S fs g merging_fleets merged_fleets
      | Some d \<Rightarrow>
          if team (fleets g f) \<noteq> Planet_team g d
          then reinforce_loop M S fs g merging_fleets merged_fleets
          else if \<not> can_dock S (fleets g f) (planets g d)
          then reinforce_loop M S fs g merging_fleets merged_fleets
          else (let g' = reinforce_transfer M f d g
                in if strength (fleets g' f) = 0
                   then reinforce_loop M S fs g' merging_fleets (merged_fleets @ [f])
                   else reinforce_loop M S fs g' (merging_fleets @ [f]) merged_fleets))"

definition handle_reinforce :: "int \<Rightarrow> real \<Rightarrow> Game \<Rightarrow> Game \<times> nat list \<times> nat list" where
  "handle_reinforce M S g = reinforce_loop M S (all_player_fleets g) g [] []"

subsection \<open>Phase 6: combat\<close>

text \<open>
  The body of the combat loop for a fleet \<open>f\<close> docked at its destination \<open>d\<close>, in the
  four steps of the source. Every read of \<open>fleet.destination.defending_fleet\<close> goes
  through the store again, as the attribute chain of the source does.

  First both damages are computed, then the garrison's and the fleet's strengths are
  reduced.
\<close>

definition combat_damage :: "int \<Rightarrow> nat \<Rightarrow> nat \<Rightarrow> Game \<Rightarrow> Game" where
  "combat_damage M f d g =
     (let defending_fleet_dmg = min (strength (fleets g f)) M;
          attacking_fleet_dmg = min (strength (fleets g (defending_fleet (planets g d)))) M;
          g1 = upd_fleet (defending_fleet (planets g d))
                 (\<lambda>fl. fl\<lparr>strength := strength fl - defending_fleet_dmg\<rparr>) g
      in upd_fleet f (\<lambda>fl. fl\<lparr>strength := strength fl - attacking_fleet_dmg\<rparr>) g1)"

text \<open>In case of a draw the defending fleet keeps 1 strength.\<close>

definition combat_draw :: "nat \<Rightarrow> Game \<Rightarrow> Game" where
  "combat_draw d g =
     (if strength (fleets g (defending_fleet (planets g d))) = 0
      then upd_fleet (defending_fleet (planets g d)) (\<lambda>fl. fl\<lparr>strength := 1\<rparr>) g
      else g)"

text \<open>A garrison below 0 is listed as destroyed and the fleet takes the planet.\<close>

definition combat_capture :: "nat \<Rightarrow> nat \<Rightarrow> Game \<Rightarrow> nat list \<Rightarrow> Game \<times> nat list" where
  "combat_capture f d g destroyed_fleets =
     (if strength (fleets g (defending_fleet (planets g d))) < 0
      then (upd_planet d (\<lambda>pl. pl\<lparr>defending_fleet := f\<rparr>) g,
            destroyed_fleets @ [defending_fleet (planets g d)])
      else (g, destroyed_fleets))"

definition combat_exchange :: "int \<Rightarrow> nat \<Rightarrow> nat \<Rightarrow> Game \<Rightarrow> nat list \<Rightarrow> Game \<times> nat list" where
  "combat_exchange M f d g destroyed_fleets =
     (case combat_capture f d (combat_draw d (combat_damage M f d g)) destroyed_fleets of
        (g', destroyed') \<Rightarrow>
          (g', if strength (fleets g' f) \<le> 0 then destroyed' @ [f] else destroyed'))"

fun combat_loop :: "int \<Rightarrow> real \<Rightarrow> nat list \<Rightarrow> Game \<Rightarrow> nat list \<Rightarrow> Game \<times> nat list" where
  "combat_loop M S [] g destroyed_fleets = (g, destroyed_fleets)"
| "combat_loop M S (f # fs) g destroyed_fleets =
     (case destination (fleets g f) of
        None \<Rightarrow> combat_loop M S fs g destroyed_fleets
      | Some d \<Rightarrow>
          if \<not> can_dock S (fleets g f) (planets g d)
          then combat_loop M S fs g destroyed_fleets
          else (case combat_exchange M f d g destroyed_fleets of
                  (g', destroyed') \<Rightarrow> combat_loop M S fs g' destroyed'))"

definition handle_combat :: "int \<Rightarrow> real \<Rightarrow> Game \<Rightarrow> Game \<times> nat list" where
  "handle_combat M S g = combat_loop M S (all_player_fleets g) g []"

subsection \<open>Phase 7: production\<close>

definition produce :: "nat \<Rightarrow> Game \<Rightarrow> Game" where
  "produce p g =
     (let g1 = upd_planet p
                 (\<lambda>pl. pl\<lparr>remaining_until_new_ship := remaining_until_new_ship pl - 1\<rparr>) g
      in if remaining_until_new_ship (planets g1 p) \<le> 0
         then upd_fleet (defending_fleet (planets g1 p)) (\<lambda>fl. fl\<lparr>strength := strength fl + 1\<rparr>)
                (upd_planet p
                   (\<lambda>pl. pl\<lparr>remaining_until_new_ship := production_speed pl\<rparr>) g1)
         else g1)"

fun production_loop :: "nat list \<Rightarrow> Game \<Rightarrow> Game" where
  "production_loop [] g = g"
| "production_loop (p # ps) g = production_loop ps (produce p g)"

definition handle_production :: "Game \<Rightarrow> Game" where
  "handle_production g = production_loop (all_player_planets g) g"

subsection \<open>The tick\<close>

text \<open>\<open>list.remove\<close>: drops the first equal element, \<open>ValueError\<close> when there is none.\<close>

fun list_remove :: "Ref \<Rightarrow> Ref list \<Rightarrow> error + Ref list" where
  "list_remove r [] = Inl ValueError"
| "list_remove r (e # es) =
     (if e = r then Inr es
      else (case list_remove r es of Inl err \<Rightarrow> Inl err | Inr es' \<Rightarrow> Inr (e # es')))"

fun remove_loop :: "nat list \<Rightarrow> Game \<Rightarrow> error + Game" where
  "remove_loop [] g = Inr g"
| "remove_loop (f # fs) g =
     (case list_remove (FleetRef f) (state g) of
        Inl err \<Rightarrow> Inl err
      | Inr es \<Rightarrow> remove_loop fs (g\<lparr>state := es\<rparr>))"

definition step :: "int \<Rightarrow> real \<Rightarrow> MoveCommand list \<Rightarrow> Game \<Rightarrow> error + Game" where
  "step M S commands g =
     (case handle_already_defending_fleets (handle_commands commands g) of
        Inl err \<Rightarrow> Inl err
      | Inr g2 \<Rightarrow>
          (case handle_departures g2 of
             (g3, created_fleets) \<Rightarrow>
               (case handle_movement S g3 of
                  Inl err \<Rightarrow> Inl err
                | Inr (g4, moved_fleets) \<Rightarrow>
                    (case handle_reinforce M S g4 of
                       (g5, merging_fleet, merged_fleets) \<Rightarrow>
                         (case handle_combat M S g5 of
                            (g6, destroyed_fleets) \<Rightarrow>
                              remove_loop (merged_fleets @ destroyed_fleets)
                                ((handle_production g6)
                                   \<lparr>state := state (handle_production g6)
                                              @ map FleetRef created_fleets\<rparr>))))))"

text \<open>
  A fleet is docked when it has a destination at which it can dock: the two guards at
  the head of the combat loop.
\<close>

definition docked :: "real \<Rightarrow> Game \<Rightarrow> nat \<Rightarrow> bool" where
  "docked S g f \<longleftrightarrow>
     (case destination (fleets g f) of
        None \<Rightarrow> False
      | Some d \<Rightarrow> can_dock S (fleets g f) (planets g d))"



section \<open>Example games\<close>

text \<open>
  Two planets on the x axis, \<open>far\<close> apart, each with its garrison at the planet's own
  position and listed fleet first, as \<open>init_random_game_state\<close> lays a game out. The
  teams, strengths and destinations of the two garrisons are parameters.
\<close>

definition two_planets ::
  "Team \<Rightarrow> int \<Rightarrow> nat option \<Rightarrow> Team \<Rightarrow> int \<Rightarrow> nat option \<Rightarrow> real \<Rightarrow> Game" where
  "two_planets t0 s0 d0 t1 s1 d1 far =
     \<lparr>fleets = (\<lambda>_. \<lparr>position = Position 0 0, team = t0, strength = s0, destination = d0\<rparr>)
                 (1 := \<lparr>position = Position far 0, team = t1, strength = s1, destination = d1\<rparr>),
      planets = (\<lambda>_. \<lparr>position = Position 0 0, production_speed = 1,
                       remaining_until_new_ship = 1, defending_fleet = 0\<rparr>)
                 (1 := \<lparr>position = Position far 0, production_speed = 1,
                        remaining_until_new_ship = 1, defending_fleet = 1\<rparr>),
      heap_next = 2,
      state = [FleetRef 0, PlanetRef 0, FleetRef 1, PlanetRef 1]\<rparr>"

text \<open>A further fleet in flight, appended to the collection as a created fleet is.\<close>

definition with_fleet :: "Fleet \<Rightarrow> Game \<Rightarrow> Game" where
  "with_fleet fl g =
     g\<lparr>fleets := (fleets g)(heap_next g := fl),
       heap_next := Suc (heap_next g),
       state := state g @ [FleetRef (heap_next g)]\<rparr>"

section \<open>Evaluation of the phases on concrete games\<close>

lemmas engine_defs =
  two_planets_def with_fleet_def step_def handle_already_defending_fleets_def
  all_player_fleets_def all_player_planets_def handle_departures_def handle_departure_def
  handle_movement_def move_fleet_def handle_reinforce_def reinforce_transfer_def
  handle_combat_def combat_exchange_def combat_damage_def combat_draw_def
  combat_capture_def handle_production_def produce_def
  upd_fleet_def upd_planet_def Planet_team_def Planet_size_def can_dock_def distance_to_def

lemma sqrt_10000: "sqrt 10000 = 100"
  using real_sqrt_abs [of 100] by simp

lemma sqrt_38025: "sqrt 38025 = 195"
  using real_sqrt_abs [of 195] by simp

section \<open>The already-arrived correction\<close>

lemma already_defending_loop_None:
  "f \<in> set fs \<Longrightarrow> destination (fleets g f) = None
     \<Longrightarrow> already_defending_loop fs g = Inl AttributeError"
proof (induction fs arbitrary: g)
  case Nil
  then show ?case by simp
next
  case (Cons h fs)
  show ?case
  proof (cases "destination (fleets g h)")
    case None
    then show ?thesis by simp
  next
    case (Some p)
    with Cons.prems have neq: "h \<noteq> f" and mem: "f \<in> set fs" by auto
    from neq Cons.prems(2)
    have "destination (fleets (upd_fleet h (\<lambda>fl. fl\<lparr>destination := None\<rparr>) g) f) = None"
      by (simp add: upd_fleet_def)
    with Cons.IH [OF mem] Cons.prems(2) Some show ?thesis by simp
  qed
qed

text \<open>
  C1 (fails on the code). The correction phase reads
  \<open>fleet.destination.defending_fleet\<close> of every active fleet without testing the
  destination: as soon as one active fleet has no destination, the phase raises
  \<open>AttributeError\<close> instead of leaving that fleet unchanged.
\<close>

theorem already_defending_null_destination_raises:
  "f \<in> set (all_player_fleets g) \<Longrightarrow> destination (fleets g f) = None
     \<Longrightarrow> handle_already_defending_fleets g = Inl AttributeError"
  unfolding handle_already_defending_fleets_def by (rule already_defending_loop_None)

text \<open>
  The game as \<open>init_random_game_state\<close> builds it (every fleet without a destination):
  the phase, and with it the first tick without commands, ends in the error.
\<close>

theorem already_defending_null_destination_raises_witness:
  "0 \<in> set (all_player_fleets (two_planets (PLAYER 1) 10 None (PLAYER 2) 10 None 100))
   \<and> destination (fleets (two_planets (PLAYER 1) 10 None (PLAYER 2) 10 None 100) 0) = None
   \<and> handle_already_defending_fleets (two_planets (PLAYER 1) 10 None (PLAYER 2) 10 None 100)
       = Inl AttributeError"
proof -
  have a: "0 \<in> set (all_player_fleets (two_planets (PLAYER 1) 10 None (PLAYER 2) 10 None 100))"
    by (simp add: all_player_fleets_def two_planets_def)
  have b: "destination (fleets (two_planets (PLAYER 1) 10 None (PLAYER 2) 10 None 100) 0) = None"
    by (simp add: two_planets_def)
  from a b already_defending_null_destination_raises [OF a b] show ?thesis by simp
qed

section \<open>Movement\<close>

text \<open>
  C2 (fails on the code). \<open>_move_fleet\<close> stores the scaled direction vector as the new
  position instead of adding it to the old one. A fleet of team 1 at \<open>(100, 0)\<close> bound
  for the planet at \<open>(200, 0)\<close> (size 5, \<open>MAX_FLEET_SPEED = 5\<close>) cannot dock, is moved by
  the phase, and ends at \<open>(5, 0)\<close>: its distance to the destination grows from 100 to
  195 and it still cannot dock.
\<close>

theorem handle_movement_moves_away:
  "\<exists>g'. handle_movement 5
          (with_fleet
             \<lparr>position = Position 100 0, team = PLAYER 1, strength = 10, destination = Some 1\<rparr>
             (two_planets (PLAYER 1) 0 None (PLAYER 2) 4 None 200)) = Inr (g', [2])
     \<and> distance_to (Position 100 0) (position (planets g' 1)) = 100
     \<and> position (fleets g' 2) = Position 5 0
     \<and> distance_to (position (fleets g' 2)) (position (planets g' 1)) = 195
     \<and> \<not> can_dock 5 (fleets g' 2) (planets g' 1)"
  by (simp add: engine_defs sqrt_10000 sqrt_38025)

lemma movement_loop_no_ValueError: "movement_loop S fs g moved \<noteq> Inl ValueError"
proof (induction fs arbitrary: g moved)
  case Nil
  then show ?case by simp
next
  case (Cons f fs)
  show ?case
  proof (cases "destination (fleets g f)")
    case None
    with Cons.IH show ?thesis by simp
  next
    case (Some d)
    then have "move_fleet S f g \<noteq> Inl ValueError"
      by (simp add: move_fleet_def Let_def)
    with Some Cons.IH show ?thesis
      by (auto split: sum.splits)
  qed
qed

text \<open>
  C9. \<open>_move_fleet\<close> raises \<open>ValueError\<close> on a fleet without destination, and the
  movement phase never ends in that error, whatever the game: it skips the
  destination-less fleets before it calls the helper. (The only error the phase can end
  in is the \<open>ZeroDivisionError\<close> of normalising a zero vector.)
\<close>

theorem move_fleet_without_destination:
  "(destination (fleets g f) = None \<longrightarrow> move_fleet S f g = Inl ValueError)
   \<and> handle_movement S g \<noteq> Inl ValueError"
  by (simp add: move_fleet_def handle_movement_def movement_loop_no_ValueError)

theorem move_fleet_without_destination_witness:
  "destination (fleets (two_planets (PLAYER 1) 10 None (PLAYER 2) 10 None 100) 0) = None
   \<and> move_fleet 5 0 (two_planets (PLAYER 1) 10 None (PLAYER 2) 10 None 100) = Inl ValueError
   \<and> handle_movement 5 (two_planets (PLAYER 1) 10 None (PLAYER 2) 10 None 100)
       \<noteq> Inl ValueError"
  using move_fleet_without_destination
          [of "two_planets (PLAYER 1) 10 None (PLAYER 2) 10 None 100" 0 5]
  by (simp add: two_planets_def)

section \<open>Combat between fleets of one team\<close>

text \<open>
  C3 (fails on the code). \<open>_handle_combat\<close> has no test of the teams. A fleet of team 1
  with strength 10 docked at a planet of team 1 whose garrison has strength 4
  (\<open>MAX_ATTACK_SPEED = 3\<close>) is fought like an enemy: the phase leaves the fleet with 7
  and the garrison with 1.
\<close>

theorem handle_combat_same_team:
  "\<exists>g' destroyed.
      handle_combat 3 5
        (with_fleet
           \<lparr>position = Position 0 0, team = PLAYER 1, strength = 10, destination = Some 0\<rparr>
           (two_planets (PLAYER 1) 4 None (PLAYER 2) 5 None 100)) = (g', destroyed)
    \<and> team (fleets g' 2) = Planet_team g' 0
    \<and> strength (fleets g' 2) = 7
    \<and> strength (fleets g' (defending_fleet (planets g' 0))) = 1"
  by (simp add: engine_defs)

text \<open>
  The same defect ends a whole tick in an error: a friendly fleet of strength 2 merges
  completely in the reinforcement phase, is then fought by the garrison it has just
  joined and listed as destroyed too, and the second \<open>state.remove\<close> of it raises
  \<open>ValueError\<close>.
\<close>

lemma step_merged_fleet_removed_twice:
  "step 3 5 [\<lparr>cmd_fleet = 0, cmd_destination = 0, cmd_split = False\<rparr>,
            \<lparr>cmd_fleet = 1, cmd_destination = 1, cmd_split = False\<rparr>]
     (with_fleet
        \<lparr>position = Position 0 0, team = PLAYER 1, strength = 2, destination = Some 0\<rparr>
        (two_planets (PLAYER 1) 4 None (PLAYER 2) 5 None 100)) = Inl ValueError"
  by (simp add: engine_defs)

section \<open>The garrison of every planet after a tick\<close>

text \<open>
  C4 (fails on the code). Two planets 3 apart, the garrisons as the initial game has
  them; team 1 orders its garrison (strength 1) to the neighbouring planet of team 2
  (garrison of strength 5, ordered to stay). The garrison of planet 0 is within docking
  range of planet 1, fights there, falls below 0 and is removed from the collection,
  but planet 0 still names it as its defending fleet: after the tick the defending
  fleet of planet 0 is not an element of \<open>state\<close>.
\<close>

theorem step_removes_garrison_still_referenced:
  "\<exists>g'. step 3 5 [\<lparr>cmd_fleet = 0, cmd_destination = 1, cmd_split = False\<rparr>,
                  \<lparr>cmd_fleet = 1, cmd_destination = 1, cmd_split = False\<rparr>]
           (two_planets (PLAYER 1) 1 None (PLAYER 2) 5 None 3) = Inr g'
     \<and> PlanetRef 0 \<in> set (state g')
     \<and> FleetRef (defending_fleet (planets g' 0)) \<notin> set (state g')"
  by (simp add: engine_defs)

section \<open>Reinforcement\<close>

lemma reinforce_loop_append:
  "reinforce_loop M S (xs @ ys) g a b
     = (case reinforce_loop M S xs g a b of (g', a', b') \<Rightarrow> reinforce_loop M S ys g' a' b')"
  by (induction xs arbitrary: g a b) (simp_all add: Let_def split: option.splits)

lemma reinforce_transfer_strength:
  "strength (fleets (reinforce_transfer M f d g) h)
     = (if h = f
        then (if defending_fleet (planets g d) = f then strength (fleets g f)
              else strength (fleets g f) - min (strength (fleets g f)) M)
        else if h = defending_fleet (planets g d)
        then strength (fleets g h) + min (strength (fleets g f)) M
        else strength (fleets g h))"
  by (simp add: reinforce_transfer_def upd_fleet_def Let_def)

text \<open>
  C6. When the reinforcement phase reaches an active fleet \<open>f\<close> (the loop has run over
  the fleets \<open>pre\<close> listed before it and the game is \<open>gi\<close>) that has a destination \<open>d\<close>
  of its own team at which it can dock, the phase goes on from a game \<open>g'\<close> in which
  \<open>min (strength f) MAX_ATTACK_SPEED\<close> has moved from the fleet to the garrison of \<open>d\<close>;
  the sum of the two strengths is what it was; and \<open>f\<close> is appended to the merged
  fleets (those the tick removes) exactly when its strength is now 0, to the merging
  ones otherwise.
\<close>

theorem handle_reinforce_transfer:
  assumes "all_player_fleets g = pre @ f # post"
    and "reinforce_loop M S pre g [] [] = (gi, merging, merged)"
    and "destination (fleets gi f) = Some d"
    and "team (fleets gi f) = Planet_team gi d"
    and "can_dock S (fleets gi f) (planets gi d)"
  shows "\<exists>g'. handle_reinforce M S g
                = reinforce_loop M S post g'
                    (if strength (fleets g' f) = 0 then merging else merging @ [f])
                    (if strength (fleets g' f) = 0 then merged @ [f] else merged)
          \<and> (defending_fleet (planets gi d) \<noteq> f \<longrightarrow>
                strength (fleets g' f)
                  = strength (fleets gi f) - min (strength (fleets gi f)) M
              \<and> strength (fleets g' (defending_fleet (planets gi d)))
                  = strength (fleets gi (defending_fleet (planets gi d)))
                    + min (strength (fleets gi f)) M)
          \<and> strength (fleets g' f) + strength (fleets g' (defending_fleet (planets gi d)))
                = strength (fleets gi f) + strength (fleets gi (defending_fleet (planets gi d)))"
proof -
  let ?g' = "reinforce_transfer M f d gi"
  have run: "handle_reinforce M S g
      = reinforce_loop M S post ?g'
          (if strength (fleets ?g' f) = 0 then merging else merging @ [f])
          (if strength (fleets ?g' f) = 0 then merged @ [f] else merged)"
    using assms
    by (simp add: handle_reinforce_def reinforce_loop_append Let_def)
  have moved: "defending_fleet (planets gi d) \<noteq> f \<longrightarrow>
      strength (fleets ?g' f) = strength (fleets gi f) - min (strength (fleets gi f)) M
      \<and> strength (fleets ?g' (defending_fleet (planets gi d)))
          = strength (fleets gi (defending_fleet (planets gi d)))
            + min (strength (fleets gi f)) M"
    by (simp add: reinforce_transfer_strength)
  have total: "strength (fleets ?g' f) + strength (fleets ?g' (defending_fleet (planets gi d)))
      = strength (fleets gi f) + strength (fleets gi (defending_fleet (planets gi d)))"
    by (simp add: reinforce_transfer_strength)
  from run moved total show ?thesis by blast
qed

text \<open>
  A fleet of team 1 with strength 2 docked at its own team's planet 0 (garrison 4,
  \<open>MAX_ATTACK_SPEED = 3\<close>): the garrison ends with 6, the fleet with 0 and merged.
\<close>

theorem handle_reinforce_transfer_witness:
  "\<exists>g'. handle_reinforce 3 5
           (with_fleet
              \<lparr>position = Position 0 0, team = PLAYER 1, strength = 2, destination = Some 0\<rparr>
              (two_planets (PLAYER 1) 4 None (PLAYER 2) 5 None 100)) = (g', [], [2])
       \<and> strength (fleets g' 2) = 0 \<and> strength (fleets g' 0) = 6"
proof -
  let ?g = "with_fleet
              \<lparr>position = Position 0 0, team = PLAYER 1, strength = 2, destination = Some 0\<rparr>
              (two_planets (PLAYER 1) 4 None (PLAYER 2) 5 None 100)"
  have a1: "all_player_fleets ?g = [0, 1] @ 2 # []"
    by (simp add: all_player_fleets_def with_fleet_def two_planets_def)
  have a2: "reinforce_loop 3 5 [0, 1] ?g [] [] = (?g, [], [])"
    by (simp add: with_fleet_def two_planets_def)
  have a3: "destination (fleets ?g 2) = Some 0"
    by (simp add: with_fleet_def two_planets_def)
  have a4: "team (fleets ?g 2) = Planet_team ?g 0"
    by (simp add: with_fleet_def two_planets_def Planet_team_def)
  have a5: "can_dock 5 (fleets ?g 2) (planets ?g 0)"
    by (simp add: with_fleet_def two_planets_def can_dock_def distance_to_def Planet_size_def)
  have a6: "defending_fleet (planets ?g 0) \<noteq> 2"
    by (simp add: with_fleet_def two_planets_def)
  have s2: "strength (fleets ?g 2) = 2" and s0: "strength (fleets ?g (defending_fleet (planets ?g 0))) = 4"
    and d0: "defending_fleet (planets ?g 0) = 0"
    by (simp_all add: with_fleet_def two_planets_def)
  from handle_reinforce_transfer [OF a1 a2 a3 a4 a5] a6
  obtain g' where r: "handle_reinforce 3 5 ?g
                = reinforce_loop 3 5 [] g'
                    (if strength (fleets g' 2) = 0 then [] else [] @ [2])
                    (if strength (fleets g' 2) = 0 then [] @ [2] else [])"
    and f: "strength (fleets g' 2) = strength (fleets ?g 2) - min (strength (fleets ?g 2)) 3"
    and d: "strength (fleets g' (defending_fleet (planets ?g 0)))
                = strength (fleets ?g (defending_fleet (planets ?g 0)))
                  + min (strength (fleets ?g 2)) 3"
    by blast
  from f s2 have f0: "strength (fleets g' 2) = 0" by simp
  from d s2 s0 d0 have d6: "strength (fleets g' 0) = 6" by simp
  from r f0 have "handle_reinforce 3 5 ?g = (g', [], [2])" by simp
  with f0 d6 show ?thesis by blast
qed

section \<open>Combat of one fleet against a garrison\<close>

lemma combat_loop_append:
  "combat_loop M S (xs @ ys) g ds
     = (case combat_loop M S xs g ds of (g', ds') \<Rightarrow> combat_loop M S ys g' ds')"
  by (induction xs arbitrary: g ds) (simp_all split: option.splits prod.splits)

lemma combat_loop_not_docked:
  "\<forall>h\<in>set fs. \<not> docked S g h \<Longrightarrow> combat_loop M S fs g ds = (g, ds)"
  by (induction fs) (auto simp: docked_def split: option.splits)

lemma combat_damage_frame:
  "destination (fleets (combat_damage M f d g) h) = destination (fleets g h)"
  "position (fleets (combat_damage M f d g) h) = position (fleets g h)"
  "team (fleets (combat_damage M f d g) h) = team (fleets g h)"
  "planets (combat_damage M f d g) = planets g"
  "state (combat_damage M f d g) = state g"
  by (simp_all add: combat_damage_def upd_fleet_def Let_def)

lemma combat_draw_frame:
  "destination (fleets (combat_draw d g) h) = destination (fleets g h)"
  "position (fleets (combat_draw d g) h) = position (fleets g h)"
  "team (fleets (combat_draw d g) h) = team (fleets g h)"
  "planets (combat_draw d g) = planets g"
  "state (combat_draw d g) = state g"
  by (simp_all add: combat_draw_def upd_fleet_def)

lemma combat_capture_frame:
  "fleets (fst (combat_capture f d g ds)) = fleets g"
  "position (planets (fst (combat_capture f d g ds)) p) = position (planets g p)"
  "production_speed (planets (fst (combat_capture f d g ds)) p) = production_speed (planets g p)"
  "state (fst (combat_capture f d g ds)) = state g"
  by (simp_all add: combat_capture_def upd_planet_def)

lemma combat_exchange_fst:
  "fst (combat_exchange M f d g ds)
     = fst (combat_capture f d (combat_draw d (combat_damage M f d g)) ds)"
  by (simp add: combat_exchange_def split: prod.splits)

lemma combat_exchange_docked:
  "docked S (fst (combat_exchange M f d g ds)) h = docked S g h"
  by (cases "destination (fleets g h)")
     (simp_all add: combat_exchange_fst docked_def can_dock_def Planet_size_def
        combat_capture_frame combat_draw_frame combat_damage_frame)


lemma combat_exchange_duel:
  assumes "b = defending_fleet (planets g d)" and "b \<noteq> f"
    and "A = strength (fleets g f)" and "B = strength (fleets g b)" and "A \<le> M"
  shows "combat_exchange M f d g ds
     = (g\<lparr>fleets := (fleets g)
            (b := (fleets g b)\<lparr>strength := (if B - A = 0 then 1 else B - A)\<rparr>,
             f := (fleets g f)\<lparr>strength := A - min B M\<rparr>),
          planets := (if B - A < 0
                      then (planets g)(d := (planets g d)\<lparr>defending_fleet := f\<rparr>)
                      else planets g)\<rparr>,
        ds @ (if B - A < 0 then [b] else []) @ (if A - min B M \<le> 0 then [f] else []))"
proof -
  have dmg: "combat_damage M f d g
      = g\<lparr>fleets := (fleets g)
            (b := (fleets g b)\<lparr>strength := B - A\<rparr>,
             f := (fleets g f)\<lparr>strength := A - min B M\<rparr>)\<rparr>"
    using assms by (simp add: combat_damage_def upd_fleet_def Let_def min_def)
  have draw: "combat_draw d (combat_damage M f d g)
      = g\<lparr>fleets := (fleets g)
            (b := (fleets g b)\<lparr>strength := (if B - A = 0 then 1 else B - A)\<rparr>,
             f := (fleets g f)\<lparr>strength := A - min B M\<rparr>)\<rparr>"
    unfolding dmg using assms(1,2)
    by (auto simp add: combat_draw_def upd_fleet_def fun_upd_twist)
  show ?thesis
    unfolding combat_exchange_def draw using assms(1,2)
    by (simp add: combat_capture_def upd_planet_def)
qed


text \<open>
  C5. One-on-one combat: \<open>f\<close> is the only active fleet that is docked (no other active
  fleet has a destination it can dock at), its strength is \<open>A\<close>, the garrison \<open>b\<close> of its
  destination \<open>d\<close> has strength \<open>B\<close> and another team, \<open>A, B \<ge> 1\<close> and
  \<open>A \<le> MAX_ATTACK_SPEED\<close>. Then the combat phase leaves the garrison fleet with \<open>B - A\<close>,
  or with 1 when that is 0; when \<open>B - A < 0\<close>, and only then, the garrison fleet is listed
  as destroyed and \<open>f\<close> is the planet's defending fleet; \<open>f\<close> is left with
  \<open>A - min B MAX_ATTACK_SPEED\<close> and is listed as destroyed iff that is at most 0.
\<close>

theorem handle_combat_one_on_one:
  assumes "all_player_fleets g = pre @ f # post"
    and "\<forall>h\<in>set (pre @ post). \<not> docked S g h"
    and "destination (fleets g f) = Some d"
    and "can_dock S (fleets g f) (planets g d)"
    and "b = defending_fleet (planets g d)"
    and "team (fleets g f) \<noteq> team (fleets g b)"
    and "A = strength (fleets g f)" and "B = strength (fleets g b)"
    and "1 \<le> A" and "1 \<le> B" and "A \<le> M"
  shows "\<exists>g' destroyed. handle_combat M S g = (g', destroyed)
          \<and> strength (fleets g' b) = (if B - A = 0 then 1 else B - A)
          \<and> (b \<in> set destroyed \<longleftrightarrow> B - A < 0)
          \<and> defending_fleet (planets g' d) = (if B - A < 0 then f else b)
          \<and> strength (fleets g' f) = A - min B M
          \<and> (f \<in> set destroyed \<longleftrightarrow> A - min B M \<le> 0)"
proof -
  from assms(6) have neq: "b \<noteq> f" by auto
  let ?g' = "g\<lparr>fleets := (fleets g)
            (b := (fleets g b)\<lparr>strength := (if B - A = 0 then 1 else B - A)\<rparr>,
             f := (fleets g f)\<lparr>strength := A - min B M\<rparr>),
          planets := (if B - A < 0
                      then (planets g)(d := (planets g d)\<lparr>defending_fleet := f\<rparr>)
                      else planets g)\<rparr>"
  let ?ds = "[] @ (if B - A < 0 then [b] else []) @ (if A - min B M \<le> 0 then [f] else [])"
  have ex: "combat_exchange M f d g [] = (?g', ?ds)"
    by (rule combat_exchange_duel [OF assms(5) neq assms(7) assms(8) assms(11)])
  from assms(2) have pre: "\<forall>h\<in>set pre. \<not> docked S g h"
    and post: "\<forall>h\<in>set post. \<not> docked S g h" by auto
  have "docked S ?g' h = docked S g h" for h
    using combat_exchange_docked [of S M f d g "[]" h] by (simp only: ex fst_conv)
  with post have post': "\<forall>h\<in>set post. \<not> docked S ?g' h" by simp
  have "handle_combat M S g = combat_loop M S (f # post) g []"
    by (simp add: handle_combat_def assms(1) combat_loop_append
          combat_loop_not_docked [OF pre])
  also have "\<dots> = combat_loop M S post ?g' ?ds"
    using assms(3,4) ex by simp
  also have "\<dots> = (?g', ?ds)"
    by (rule combat_loop_not_docked [OF post'])
  finally have run: "handle_combat M S g = (?g', ?ds)" .
  have 1: "strength (fleets ?g' b) = (if B - A = 0 then 1 else B - A)"
    using neq by simp
  have 2: "b \<in> set ?ds \<longleftrightarrow> B - A < 0"
    using neq by simp
  have 3: "defending_fleet (planets ?g' d) = (if B - A < 0 then f else b)"
    using assms(5) by simp
  have 4: "strength (fleets ?g' f) = A - min B M"
    by simp
  have 5: "f \<in> set ?ds \<longleftrightarrow> A - min B M \<le> 0"
    using neq by simp
  from run 1 2 3 4 5 show ?thesis by blast
qed

text \<open>
  A fleet of strength 3 docked at an enemy planet whose garrison has strength 2
  (\<open>MAX_ATTACK_SPEED = 3\<close>): the garrison falls to -1 and is destroyed, the fleet keeps 1
  and holds the planet.
\<close>

theorem handle_combat_one_on_one_witness:
  "\<exists>g' destroyed.
      handle_combat 3 5
        (with_fleet
           \<lparr>position = Position 100 0, team = PLAYER 1, strength = 3, destination = Some 1\<rparr>
           (two_planets (PLAYER 1) 4 None (PLAYER 2) 2 None 100)) = (g', destroyed)
    \<and> strength (fleets g' 1) = - 1 \<and> 1 \<in> set destroyed
    \<and> defending_fleet (planets g' 1) = 2
    \<and> strength (fleets g' 2) = 1 \<and> 2 \<notin> set destroyed"
proof -
  let ?g = "with_fleet
           \<lparr>position = Position 100 0, team = PLAYER 1, strength = 3, destination = Some 1\<rparr>
           (two_planets (PLAYER 1) 4 None (PLAYER 2) 2 None 100)"
  have a1: "all_player_fleets ?g = [0, 1] @ 2 # []"
    by (simp add: all_player_fleets_def with_fleet_def two_planets_def)
  have a2: "\<forall>h\<in>set ([0, 1] @ []). \<not> docked 5 ?g h"
    by (simp add: docked_def with_fleet_def two_planets_def)
  have a3: "destination (fleets ?g 2) = Some 1"
    by (simp add: with_fleet_def two_planets_def)
  have a4: "can_dock 5 (fleets ?g 2) (planets ?g 1)"
    by (simp add: with_fleet_def two_planets_def can_dock_def distance_to_def Planet_size_def)
  have a5: "1 = defending_fleet (planets ?g 1)"
    by (simp add: with_fleet_def two_planets_def)
  have a6: "team (fleets ?g 2) \<noteq> team (fleets ?g 1)"
    by (simp add: with_fleet_def two_planets_def)
  have a7: "3 = strength (fleets ?g 2)" and a8: "2 = strength (fleets ?g 1)"
    by (simp_all add: with_fleet_def two_planets_def)
  have a9: "(1::int) \<le> 3" and a10: "(1::int) \<le> 2" and a11: "(3::int) \<le> 3"
    by simp_all
  from handle_combat_one_on_one [OF a1 a2 a3 a4 a5 a6 a7 a8 a9 a10 a11]
  show ?thesis by simp
qed

section \<open>Departures\<close>









section \<open>A garrison that keeps its destination\<close>









































end
